theory Spec2Isabelle
  imports Complex_Main
begin

section \<open>Errors and values\<close>

text \<open>
  The exceptions the modelled Python code can raise. A function that can raise returns a
  sum: \<open>Inl\<close> carries the exception (together with the state reached when it was
  raised, where effects matter), \<open>Inr\<close> the normal result.
\<close>

datatype error =
    AttributeError
  | ZeroDivisionError
  | FileNotFoundError
  | InvalidArgumentError
  | ValueError
  | TypeError
  | RuntimeError

text \<open>Floats are modelled as reals; an image is its flattened pixel list, a tensor of
  rank four is the list of the images of a batch.\<close>

type_synonym image = "real list"
type_synonym tensor = "image list"

datatype pyval =
    PyInt int
  | PyFloat real
  | PyBool bool
  | PyStr string
  | PyNone
  | PyObject

section \<open>StyleGAN: train.py\<close>

subsection \<open>RandomWeightedAverage\<close>

text \<open>
  \<open>tf.random.normal(shape, mean, stddev)\<close> and \<open>tf.random.uniform(shape, lo, hi)\<close>
  are framework samplers; \<open>may_return\<close> says which numbers a sampler can produce.
\<close>

datatype sampler = RandomNormal real real | RandomUniform real real

fun may_return :: "sampler \<Rightarrow> real \<Rightarrow> bool" where
  "may_return (RandomNormal mean stddev) x = (0 < stddev \<or> x = mean)"
| "may_return (RandomUniform lo hi) x = (lo \<le> x \<and> x < hi)"

text \<open>Line 30 of train.py: \<open>alpha = tf.random.normal((self.batch_size, 1, 1, 1), 0, 1)\<close>.\<close>

definition alpha_sampler :: sampler where
  "alpha_sampler = RandomNormal 0 1"

text \<open>
  Elementwise tensor arithmetic broadcasts an axis of length one against the other
  operand and raises on any other length mismatch.
\<close>

definition broadcast2 :: "('a \<Rightarrow> 'b \<Rightarrow> error + 'c) \<Rightarrow> 'a list \<Rightarrow> 'b list \<Rightarrow> error + 'c list" where
  "broadcast2 f xs ys =
     (let pairs =
        (if length xs = length ys then Inr (zip xs ys)
         else if length xs = 1 then Inr (map (\<lambda>y. (hd xs, y)) ys)
         else if length ys = 1 then Inr (map (\<lambda>x. (x, hd ys)) xs)
         else Inl InvalidArgumentError)
      in case pairs of
           Inl e \<Rightarrow> Inl e
         | Inr ps \<Rightarrow>
             foldr (\<lambda>(x, y) acc.
                      case acc of
                        Inl e \<Rightarrow> Inl e
                      | Inr zs \<Rightarrow> (case f x y of Inl e \<Rightarrow> Inl e | Inr z \<Rightarrow> Inr (z # zs)))
                   ps (Inr []))"

definition image_op :: "(real \<Rightarrow> real \<Rightarrow> real) \<Rightarrow> image \<Rightarrow> image \<Rightarrow> error + image" where
  "image_op g = broadcast2 (\<lambda>x y. Inr (g x y))"

definition tensor_op :: "(real \<Rightarrow> real \<Rightarrow> real) \<Rightarrow> tensor \<Rightarrow> tensor \<Rightarrow> error + tensor" where
  "tensor_op g = broadcast2 (image_op g)"

text \<open>
  \<open>RandomWeightedAverage.call\<close>. The first argument is the sample that the call to
  \<open>tf.random.normal\<close> returned, one number for each image of the batch (shape
  \<open>(batch_size, 1, 1, 1)\<close>).
\<close>

definition call :: "real list \<Rightarrow> tensor \<Rightarrow> tensor \<Rightarrow> error + tensor" where
  "call alpha real_t fake =
     (case tensor_op (\<lambda>f r. f - r) fake real_t of
        Inl e \<Rightarrow> Inl e
      | Inr diff \<Rightarrow>
          (case tensor_op (\<lambda>a d. a * d) (map (\<lambda>a. [a]) alpha) diff of
             Inl e \<Rightarrow> Inl e
           | Inr scaled \<Rightarrow> tensor_op (\<lambda>r x. r + x) real_t scaled))"

text \<open>A number lies between two others, whichever of them is the larger.\<close>

definition between :: "real \<Rightarrow> real \<Rightarrow> real \<Rightarrow> bool" where
  "between a b x = (min a b \<le> x \<and> x \<le> max a b)"

subsection \<open>The Trainer object\<close>

text \<open>
  The run handle that \<open>neptune.init\<close> returns, with the fields stored in it.
\<close>

record neptune_run =
  project :: string
  api_token :: string
  run_fields :: "(string \<times> pyval) list"

text \<open>
  The attributes that the methods of \<open>Trainer\<close> assign (\<open>__init__\<close> and
  \<open>load_data\<close>; no other method assigns one). \<open>Generator\<close> and \<open>Discriminator\<close>
  come from the module \<open>models\<close>; what \<open>train\<close> observes of them is the scalar loss
  that \<open>_train_d\<close> and \<open>_train_g\<close> return, given here for the call made at each value
  of the iteration counter, and the number of elements of the validation prediction.
\<close>

record Trainer =
  image_res :: int
  channels :: int
  rgb :: bool
  latent_dim :: int
  batch :: int
  epochs :: int
  checkpoint :: int
  lr :: real
  beta_1 :: real
  n_critics :: int
  gp_weight :: real
  num_of_validation_images :: int
  output_dir :: string
  dataset :: "tensor list"
  neptune :: bool
  run :: "neptune_run option"
  train_d_loss :: "nat \<Rightarrow> real"
  train_g_loss :: "nat \<Rightarrow> real"
  prediction_elements :: int

text \<open>The instance dictionary: every attribute name a \<open>Trainer\<close> has, with its value.\<close>

definition instance_dict :: "Trainer \<Rightarrow> (string \<times> pyval) list" where
  "instance_dict T =
     [(''image_res'', PyInt (image_res T)),
      (''channels'', PyInt (channels T)),
      (''rgb'', PyBool (rgb T)),
      (''latent_dim'', PyInt (latent_dim T)),
      (''batch'', PyInt (batch T)),
      (''epochs'', PyInt (epochs T)),
      (''checkpoint'', PyInt (checkpoint T)),
      (''lr'', PyFloat (lr T)),
      (''beta_1'', PyFloat (beta_1 T)),
      (''n_critics'', PyInt (n_critics T)),
      (''gp_weight'', PyFloat (gp_weight T)),
      (''num_of_validation_images'', PyInt (num_of_validation_images T)),
      (''output_dir'', PyStr (output_dir T)),
      (''generator'', PyObject),
      (''discriminator'', PyObject),
      (''dataset'', PyObject),
      (''validation_latent'', PyObject),
      (''neptune'', PyBool (neptune T)),
      (''run'', (case run T of None \<Rightarrow> PyNone | Some r \<Rightarrow> PyObject))]"

definition getattr :: "Trainer \<Rightarrow> string \<Rightarrow> error + pyval" where
  "getattr T name =
     (case map_of (instance_dict T) name of
        None \<Rightarrow> Inl AttributeError
      | Some v \<Rightarrow> Inr v)"

subsection \<open>Effects\<close>

text \<open>What a run does to the outside world, in order.\<close>

datatype event =
    TrainD tensor real
  | TrainG real
  | LogG real
  | LogD real
  | CallShowImages int bool
  | GeneratorPredict
  | Figure
  | Subplot nat
  | Imshow nat
  | Savefig string int
  | Show
  | Upload
  | PrintEpoch int
  | PrintLoss real real
  | SaveGenerator string
  | SaveDiscriminator string

record train_state =
  iter :: nat
  d_training_loss_buff :: "real list"
  last_d_training_loss :: real
  last_g_training_loss :: real
  trace :: "event list"

definition init_state :: train_state where
  "init_state =
     \<lparr>iter = 0, d_training_loss_buff = [], last_d_training_loss = 0,
      last_g_training_loss = 0, trace = []\<rparr>"

text \<open>The state a computation ends in, whether it returned or raised.\<close>

fun final :: "(error \<times> 's) + 's \<Rightarrow> 's" where
  "final (Inl (e, s)) = s"
| "final (Inr s) = s"

fun raised :: "(error \<times> 's) + 's \<Rightarrow> error option" where
  "raised (Inl (e, s)) = Some e"
| "raised (Inr s) = None"

text \<open>\<open>os.path.join\<close> of two components on a POSIX system.\<close>

definition path_join :: "string \<Rightarrow> string \<Rightarrow> string" where
  "path_join a b =
     (if b \<noteq> [] \<and> hd b = CHR ''/'' then b
      else if a = [] \<or> last a = CHR ''/'' then a @ b
      else a @ ''/'' @ b)"

subsection \<open>Trainer._show_images\<close>

text \<open>
  The call of the generator and \<open>plt.figure\<close> come first; the arguments of
  \<open>tf.reshape\<close> are evaluated next, among them \<open>self.image_reso\<close>. The file name of
  the saved figure is kept as the folder and the epoch number it is formatted from.
\<close>

definition show_images :: "Trainer \<Rightarrow> int \<Rightarrow> bool \<Rightarrow> event list \<Rightarrow> (error \<times> event list) + event list" where
  "show_images T epoch save tr =
     (let tr1 = tr @ [CallShowImages epoch save, GeneratorPredict, Figure] in
      case getattr T ''image_res'' of
        Inl e \<Rightarrow> Inl (e, tr1)
      | Inr res \<Rightarrow>
      (case getattr T ''image_reso'' of
        Inl e \<Rightarrow> Inl (e, tr1)
      | Inr reso \<Rightarrow>
      (case (res, reso) of
        (PyInt h, PyInt w) \<Rightarrow>
          (let per = h * w * channels T in
           if per \<le> 0 \<or> prediction_elements T mod per \<noteq> 0 then Inl (InvalidArgumentError, tr1)
           else
             (let n = nat (prediction_elements T div per);
                  plots = concat (map (\<lambda>i. [Subplot (i + 1), Imshow i]) [0..<min n 16])
              in if 16 < n then Inl (ValueError, tr1 @ plots)
                 else
                   (let tr2 = tr1 @ plots;
                        tr3 = (if save then tr2 @ [Savefig (output_dir T) epoch] else tr2)
                    in Inr (tr3 @ [Show]))))
      | _ \<Rightarrow> Inl (TypeError, tr1))))"

subsection \<open>Trainer.train\<close>

definition normalize :: "tensor \<Rightarrow> tensor" where
  "normalize image_batch = map (map (\<lambda>x. (x - 255 / 2) / (255 / 2))) image_batch"

definition py_mean :: "real list \<Rightarrow> error + real" where
  "py_mean xs =
     (if length xs = 0 then Inl ZeroDivisionError
      else Inr (sum_list xs / real (length xs)))"

text \<open>The body of the loop over the batches (lines 190 to 219).\<close>

definition batch_step :: "Trainer \<Rightarrow> real \<Rightarrow> tensor \<Rightarrow> train_state \<Rightarrow> (error \<times> train_state) + train_state" where
  "batch_step T fade_in image_batch s =
     (let d_loss = train_d_loss T (iter s);
          s1 = s\<lparr>d_training_loss_buff := d_training_loss_buff s @ [d_loss],
                  trace := trace s @ [TrainD (normalize image_batch) fade_in]\<rparr>
      in if n_critics T = 0 then Inl (ZeroDivisionError, s1)
         else
           (let r2 =
              (if (int (iter s1) + 1) mod n_critics T = 0 then
                 (let g_loss = train_g_loss T (iter s1);
                      s1g = s1\<lparr>trace := trace s1 @ [TrainG fade_in]\<rparr>
                  in case py_mean (d_training_loss_buff s1g) of
                       Inl e \<Rightarrow> Inl (e, s1g)
                     | Inr d_training_loss_avg \<Rightarrow>
                         Inr (s1g\<lparr>trace := trace s1g @
                                     (if neptune T then [LogG g_loss, LogD d_training_loss_avg] else []),
                                   d_training_loss_buff := [],
                                   last_d_training_loss := d_training_loss_avg,
                                   last_g_training_loss := g_loss\<rparr>))
               else Inr s1)
            in case r2 of
                 Inl x \<Rightarrow> Inl x
               | Inr s2 \<Rightarrow>
                   (let s3 = s2\<lparr>iter := iter s2 + 1\<rparr> in
                    if iter s3 mod 100 = 0 then
                      (case show_images T 0 False (trace s3) of
                         Inl (e, tr) \<Rightarrow> Inl (e, s3\<lparr>trace := tr\<rparr>)
                       | Inr tr \<Rightarrow> Inr (s3\<lparr>trace := (if neptune T then tr @ [Upload] else tr)\<rparr>))
                    else Inr s3)))"

fun epoch_batches :: "Trainer \<Rightarrow> real \<Rightarrow> tensor list \<Rightarrow> train_state \<Rightarrow> (error \<times> train_state) + train_state" where
  "epoch_batches T fade_in [] s = Inr s"
| "epoch_batches T fade_in (image_batch # rest) s =
     (case batch_step T fade_in image_batch s of
        Inl x \<Rightarrow> Inl x
      | Inr s' \<Rightarrow> epoch_batches T fade_in rest s')"

text \<open>Line 187: \<open>fade_in = epoch / float(self.epochs - 1)\<close>.\<close>

definition fade_in_ratio :: "Trainer \<Rightarrow> int \<Rightarrow> error + real" where
  "fade_in_ratio T epoch =
     (if real_of_int (epochs T - 1) = 0 then Inl ZeroDivisionError
      else Inr (real_of_int epoch / real_of_int (epochs T - 1)))"

text \<open>The body of the loop over the epochs (lines 185 to 225).\<close>

definition epoch_step :: "Trainer \<Rightarrow> int \<Rightarrow> train_state \<Rightarrow> (error \<times> train_state) + train_state" where
  "epoch_step T epoch s =
     (case fade_in_ratio T epoch of
        Inl e \<Rightarrow> Inl (e, s)
      | Inr fade_in \<Rightarrow>
          (case epoch_batches T fade_in (dataset T) s of
             Inl x \<Rightarrow> Inl x
           | Inr s1 \<Rightarrow>
               if checkpoint T = 0 then Inl (ZeroDivisionError, s1)
               else if epoch mod checkpoint T = 0 then
                 (case show_images T epoch True (trace s1) of
                    Inl (e, tr) \<Rightarrow> Inl (e, s1\<lparr>trace := tr\<rparr>)
                  | Inr tr \<Rightarrow>
                      Inr (s1\<lparr>trace := tr @ [PrintEpoch (epoch + 1),
                                PrintLoss (last_d_training_loss s1) (last_g_training_loss s1)]\<rparr>))
               else Inr s1))"

fun epochs_loop :: "Trainer \<Rightarrow> int list \<Rightarrow> train_state \<Rightarrow> (error \<times> train_state) + train_state" where
  "epochs_loop T [] s = Inr s"
| "epochs_loop T (epoch # rest) s =
     (case epoch_step T epoch s of
        Inl x \<Rightarrow> Inl x
      | Inr s' \<Rightarrow> epochs_loop T rest s')"

definition train :: "Trainer \<Rightarrow> (error \<times> train_state) + train_state" where
  "train T =
     (case epochs_loop T [0..epochs T - 1] init_state of
        Inl x \<Rightarrow> Inl x
      | Inr s \<Rightarrow>
          (let folder = path_join (output_dir T) ''Model'';
               g_folder = path_join folder ''G'';
               d_folder = path_join folder ''D''
           in Inr (s\<lparr>trace := trace s @ [SaveGenerator g_folder, SaveDiscriminator d_folder]\<rparr>)))"

text \<open>A trainer with the default arguments of \<open>__init__\<close> and an empty dataset.\<close>

definition default_trainer :: Trainer where
  "default_trainer =
     \<lparr>image_res = 64, channels = 1, rgb = False, latent_dim = 100, batch = 128, epochs = 20,
      checkpoint = 1, lr = 2 / 10000, beta_1 = 1 / 2, n_critics = 2, gp_weight = 10,
      num_of_validation_images = 16, output_dir = ''out/run'', dataset = [],
      neptune = False, run = None, train_d_loss = (\<lambda>k. real k), train_g_loss = (\<lambda>k. 0),
      prediction_elements = 16 * 64 * 64\<rparr>"

subsection \<open>Reading a trace\<close>

text \<open>The parameter updates of a trace: which network was trained, and on which batch.\<close>

datatype update = UpdateD tensor | UpdateG

fun updates :: "event list \<Rightarrow> update list" where
  "updates [] = []"
| "updates (TrainD image_batch fade_in # es) = UpdateD image_batch # updates es"
| "updates (TrainG fade_in # es) = UpdateG # updates es"
| "updates (e # es) = updates es"

fun batches_drawn :: "event list \<Rightarrow> tensor list" where
  "batches_drawn [] = []"
| "batches_drawn (TrainD image_batch fade_in # es) = image_batch # batches_drawn es"
| "batches_drawn (e # es) = batches_drawn es"

fun logged_d :: "event list \<Rightarrow> real list" where
  "logged_d [] = []"
| "logged_d (LogD x # es) = x # logged_d es"
| "logged_d (e # es) = logged_d es"

fun show_calls :: "event list \<Rightarrow> (int \<times> bool) list" where
  "show_calls [] = []"
| "show_calls (CallShowImages epoch save # es) = (epoch, save) # show_calls es"
| "show_calls (e # es) = show_calls es"

fun saved_figures :: "event list \<Rightarrow> (string \<times> int) list" where
  "saved_figures [] = []"
| "saved_figures (Savefig folder epoch # es) = (folder, epoch) # saved_figures es"
| "saved_figures (e # es) = saved_figures es"

fun saved_models :: "event list \<Rightarrow> string list" where
  "saved_models [] = []"
| "saved_models (SaveGenerator folder # es) = folder # saved_models es"
| "saved_models (SaveDiscriminator folder # es) = folder # saved_models es"
| "saved_models (e # es) = saved_models es"


text \<open>
  The arithmetic mean of the discriminator losses of the \<open>j\<close>-th group of \<open>m\<close>
  consecutive iterations.
\<close>

definition block_mean :: "Trainer \<Rightarrow> nat \<Rightarrow> nat \<Rightarrow> real" where
  "block_mean T m j = sum_list (map (train_d_loss T) [j * m..<(j + 1) * m]) / real m"

text \<open>
  The state after the discriminator update of one iteration, after the generator update when
  it is due, and after the counter has advanced (lines 194 to 213, for \<open>n_critics \<noteq> 0\<close>).
\<close>

definition after_d :: "Trainer \<Rightarrow> real \<Rightarrow> tensor \<Rightarrow> train_state \<Rightarrow> train_state" where
  "after_d T f b s =
     (if (int (iter s) + 1) mod n_critics T = 0 then
        s\<lparr>iter := Suc (iter s),
          d_training_loss_buff := [],
          last_d_training_loss :=
            sum_list (d_training_loss_buff s @ [train_d_loss T (iter s)]) /
            real (length (d_training_loss_buff s @ [train_d_loss T (iter s)])),
          last_g_training_loss := train_g_loss T (iter s),
          trace := trace s @ [TrainD (normalize b) f, TrainG f] @
            (if neptune T then
               [LogG (train_g_loss T (iter s)),
                LogD (sum_list (d_training_loss_buff s @ [train_d_loss T (iter s)]) /
                      real (length (d_training_loss_buff s @ [train_d_loss T (iter s)])))]
             else [])\<rparr>
      else
        s\<lparr>iter := Suc (iter s),
          d_training_loss_buff := d_training_loss_buff s @ [train_d_loss T (iter s)],
          trace := trace s @ [TrainD (normalize b) f]\<rparr>)"

text \<open>A trainer with two epochs and three batches of one pixel each.\<close>

definition example_trainer :: Trainer where
  "example_trainer = default_trainer\<lparr>epochs := 2, dataset := [[[0]], [[255]], [[255 / 2]]]\<rparr>"

text \<open>
  What the loss buffer, the logged discriminator losses and the retained loss are after
  \<open>iter\<close> iterations, in groups of \<open>m = |n_critics|\<close> iterations.
\<close>

definition loss_log_inv :: "Trainer \<Rightarrow> train_state \<Rightarrow> bool" where
  "loss_log_inv T s =
     (let m = nat \<bar>n_critics T\<bar>; i = iter s in
      d_training_loss_buff s = map (train_d_loss T) [i - i mod m..<i] \<and>
      logged_d (trace s) = (if neptune T then map (block_mean T m) [0..<i div m] else []) \<and>
      last_d_training_loss s = (if i div m = 0 then 0 else block_mean T m (i div m - 1)))"


subsection \<open>Trainer.__init__\<close>

text \<open>The arguments of the constructor.\<close>

record init_args =
  arg_data_folder :: string
  arg_output_dir :: string
  arg_g_input_res :: int
  arg_g_init_filters :: int
  arg_d_final_res :: int
  arg_d_input_filters :: int
  arg_image_res :: int
  arg_channels :: int
  arg_latent_dim :: int
  arg_batch :: int
  arg_epochs :: int
  arg_checkpoint :: int
  arg_lr :: real
  arg_beta_1 :: real
  arg_validation_images :: int
  arg_seed :: int
  arg_n_critics :: int
  arg_gp_weight :: real
  arg_use_neptune :: bool

text \<open>
  What the constructor finds outside the program: the formatted time of day, the text
  files of the working directory (a file is its list of lines), the batches that
  \<open>image_dataset_from_directory\<close> yields for a folder, and the networks that the module
  \<open>models\<close> builds, as far as \<open>train\<close> observes them.
\<close>

record environment =
  now :: string
  files :: "string \<Rightarrow> string list option"
  images :: "string \<Rightarrow> tensor list"
  models_d_loss :: "nat \<Rightarrow> real"
  models_g_loss :: "nat \<Rightarrow> real"
  models_prediction_elements :: int

datatype init_event =
    MakeDirs string
  | BuildGenerator
  | BuildDiscriminator
  | LoadImages string string
  | ValidationLatent int int int
  | OpenFile string
  | NeptuneInit string string

text \<open>\<open>credential.readline()\<close>: the first line, the empty string at the end of the file.\<close>

definition readline :: "string list \<Rightarrow> string" where
  "readline ls = (case ls of [] \<Rightarrow> [] | l # rest \<Rightarrow> l)"

definition Trainer_init ::
  "environment \<Rightarrow> init_args \<Rightarrow> (error \<times> init_event list) + (Trainer \<times> init_event list)" where
  "Trainer_init env a =
     (let output_folder = path_join (arg_output_dir a) (now env);
          color_mod = (if arg_channels a = 1 then ''grayscale'' else ''rgb'');
          evs = [MakeDirs output_folder, BuildGenerator, BuildDiscriminator,
                 LoadImages (arg_data_folder a) color_mod,
                 ValidationLatent (arg_validation_images a) (arg_latent_dim a) (arg_seed a)];
          self =
            \<lparr>image_res = arg_image_res a, channels = arg_channels a,
             rgb = (arg_channels a = 3), latent_dim = arg_latent_dim a, batch = arg_batch a,
             epochs = arg_epochs a, checkpoint = arg_checkpoint a, lr = arg_lr a,
             beta_1 = arg_beta_1 a, n_critics = arg_n_critics a, gp_weight = arg_gp_weight a,
             num_of_validation_images = arg_validation_images a, output_dir = output_folder,
             dataset = images env (arg_data_folder a), neptune = arg_use_neptune a,
             run = None, train_d_loss = models_d_loss env, train_g_loss = models_g_loss env,
             prediction_elements = models_prediction_elements env\<rparr>
      in if arg_use_neptune a then
           (let evs1 = evs @ [OpenFile ''neptune_credential.txt''] in
            case files env ''neptune_credential.txt'' of
              None \<Rightarrow> Inl (FileNotFoundError, evs1)
            | Some ls \<Rightarrow>
                (let token = readline ls;
                     r = \<lparr>project = ''zhien.zhang/styleGAN'', api_token = token,
                          run_fields =
                            [(''Image resolution'', PyInt (arg_image_res a)),
                             (''Epochs'', PyInt (arg_epochs a)),
                             (''Batch size'', PyInt (arg_batch a)),
                             (''Latent dim'', PyInt (arg_latent_dim a)),
                             (''G input resolution'', PyInt (arg_g_input_res a)),
                             (''G initial filters'', PyInt (arg_g_init_filters a)),
                             (''D input filters'', PyInt (arg_d_input_filters a)),
                             (''D final resolution'', PyInt (arg_d_final_res a)),
                             (''n_critics'', PyInt (arg_n_critics a))]\<rparr>
                 in Inr (self\<lparr>run := Some r\<rparr>,
                         evs1 @ [NeptuneInit ''zhien.zhang/styleGAN'' token])))
         else Inr (self, evs))"

fun init_events :: "(error \<times> init_event list) + (Trainer \<times> init_event list) \<Rightarrow> init_event list" where
  "init_events (Inl (e, evs)) = evs"
| "init_events (Inr (T, evs)) = evs"

fun opened_files :: "init_event list \<Rightarrow> string list" where
  "opened_files [] = []"
| "opened_files (OpenFile path # es) = path # opened_files es"
| "opened_files (e # es) = opened_files es"

text \<open>The default arguments of the constructor, and a working directory without files.\<close>

definition default_args :: init_args where
  "default_args =
     \<lparr>arg_data_folder = ''data'', arg_output_dir = ''out'', arg_g_input_res = 4,
      arg_g_init_filters = 512, arg_d_final_res = 4, arg_d_input_filters = 16,
      arg_image_res = 64, arg_channels = 1, arg_latent_dim = 100, arg_batch = 128,
      arg_epochs = 20, arg_checkpoint = 1, arg_lr = 2 / 10000, arg_beta_1 = 1 / 2,
      arg_validation_images = 16, arg_seed = 1, arg_n_critics = 2, arg_gp_weight = 10,
      arg_use_neptune = False\<rparr>"

definition empty_environment :: environment where
  "empty_environment =
     \<lparr>now = ''01-01/2022_00_00_00'', files = (\<lambda>path. None), images = (\<lambda>folder. []),
      models_d_loss = (\<lambda>k. 0), models_g_loss = (\<lambda>k. 0),
      models_prediction_elements = 16 * 64 * 64\<rparr>"

section \<open>3D U-Net: model.py\<close>

text \<open>
  The network is modelled on the shapes of its tensors, \<open>(N, C, D, H, W)\<close>. The size
  rules are those of \<open>torch.nn\<close>: a convolution needs the padded axis to be at least as
  long as the kernel, a pooling needs the axis to be at least as long as its window, and
  the channel count of the input must be the one the layer was built for.
\<close>

type_synonym shape = "nat \<times> nat \<times> nat \<times> nat \<times> nat"

datatype layer =
    Conv3d nat nat nat nat nat
  | ReLU
  | MaxPool3d nat
  | ConvTranspose3d nat nat nat nat

definition conv_out :: "nat \<Rightarrow> nat \<Rightarrow> nat \<Rightarrow> nat \<Rightarrow> error + nat" where
  "conv_out ksize stride padding n =
     (if stride = 0 \<or> n + 2 * padding < ksize then Inl RuntimeError
      else Inr ((n + 2 * padding - ksize) div stride + 1))"

definition pool_out :: "nat \<Rightarrow> nat \<Rightarrow> error + nat" where
  "pool_out ksize n =
     (if ksize = 0 \<or> n < ksize then Inl RuntimeError
      else Inr ((n - ksize) div ksize + 1))"

definition conv_transpose_out :: "nat \<Rightarrow> nat \<Rightarrow> nat \<Rightarrow> error + nat" where
  "conv_transpose_out ksize stride n =
     (if stride = 0 \<or> n * stride + ksize < stride then Inl RuntimeError
      else Inr (n * stride + ksize - stride))"

definition on_axes :: "(nat \<Rightarrow> error + nat) \<Rightarrow> nat \<Rightarrow> nat \<Rightarrow> shape \<Rightarrow> error + shape" where
  "on_axes g n c sh =
     (case sh of (_, _, d, h, w) \<Rightarrow>
        (case g d of Inl e \<Rightarrow> Inl e | Inr d' \<Rightarrow>
        (case g h of Inl e \<Rightarrow> Inl e | Inr h' \<Rightarrow>
        (case g w of Inl e \<Rightarrow> Inl e | Inr w' \<Rightarrow> Inr (n, c, d', h', w')))))"

fun apply_layer :: "layer \<Rightarrow> shape \<Rightarrow> error + shape" where
  "apply_layer (Conv3d cin cout ksize stride padding) (n, c, d, h, w) =
     (if c \<noteq> cin then Inl RuntimeError
      else on_axes (conv_out ksize stride padding) n cout (n, c, d, h, w))"
| "apply_layer ReLU sh = Inr sh"
| "apply_layer (MaxPool3d ksize) (n, c, d, h, w) =
     on_axes (pool_out ksize) n c (n, c, d, h, w)"
| "apply_layer (ConvTranspose3d cin cout ksize stride) (n, c, d, h, w) =
     (if c \<noteq> cin then Inl RuntimeError
      else on_axes (conv_transpose_out ksize stride) n cout (n, c, d, h, w))"

text \<open>\<open>nn.Sequential\<close>: the layers in order, stopping at the first error.\<close>

fun sequential :: "layer list \<Rightarrow> shape \<Rightarrow> error + shape" where
  "sequential [] sh = Inr sh"
| "sequential (l # ls) sh =
     (case apply_layer l sh of Inl e \<Rightarrow> Inl e | Inr sh' \<Rightarrow> sequential ls sh')"

text \<open>\<open>torch.cat((x1, x2), dim=1)\<close>: all axes but the channels must agree.\<close>

fun cat :: "shape \<Rightarrow> shape \<Rightarrow> error + shape" where
  "cat (n1, c1, d1, h1, w1) (n2, c2, d2, h2, w2) =
     (if n1 = n2 \<and> d1 = d2 \<and> h1 = h2 \<and> w1 = w2 then Inr (n1, c1 + c2, d1, h1, w1)
      else Inl RuntimeError)"

record Decoder =
  in_channels :: nat
  middle_channels :: nat
  out_channels :: nat

definition Decoder_up :: "Decoder \<Rightarrow> layer" where
  "Decoder_up dec = ConvTranspose3d (in_channels dec) (out_channels dec) 2 2"

definition Decoder_conv_relu :: "Decoder \<Rightarrow> layer list" where
  "Decoder_conv_relu dec = [Conv3d (middle_channels dec) (out_channels dec) 3 1 1, ReLU]"

text \<open>The tensor that \<open>Decoder.forward\<close> passes to \<open>conv_relu\<close>.\<close>

definition Decoder_concat :: "Decoder \<Rightarrow> shape \<Rightarrow> shape \<Rightarrow> error + shape" where
  "Decoder_concat dec x1 x2 =
     (case apply_layer (Decoder_up dec) x1 of
        Inl e \<Rightarrow> Inl e
      | Inr x1' \<Rightarrow> cat x1' x2)"

definition Decoder_forward :: "Decoder \<Rightarrow> shape \<Rightarrow> shape \<Rightarrow> error + shape" where
  "Decoder_forward dec x1 x2 =
     (case Decoder_concat dec x1 x2 of
        Inl e \<Rightarrow> Inl e
      | Inr x \<Rightarrow> sequential (Decoder_conv_relu dec) x)"

definition encoder_block :: "nat \<Rightarrow> nat \<Rightarrow> layer list" where
  "encoder_block cin cout =
     [Conv3d cin cout 3 1 1, ReLU, Conv3d cout cout 3 1 1, MaxPool3d 2]"

definition layer1 :: "layer list" where "layer1 = encoder_block 1 16"
definition layer2 :: "layer list" where "layer2 = encoder_block 16 32"
definition layer3 :: "layer list" where "layer3 = encoder_block 32 64"
definition layer4 :: "layer list" where "layer4 = encoder_block 64 128"
definition layer5 :: "layer list" where "layer5 = encoder_block 128 256"

definition decode4 :: Decoder where
  "decode4 = \<lparr>in_channels = 256, middle_channels = 128 + 128, out_channels = 128\<rparr>"
definition decode3 :: Decoder where
  "decode3 = \<lparr>in_channels = 128, middle_channels = 64 + 64, out_channels = 64\<rparr>"
definition decode2 :: Decoder where
  "decode2 = \<lparr>in_channels = 64, middle_channels = 32 + 32, out_channels = 32\<rparr>"
definition decode1 :: Decoder where
  "decode1 = \<lparr>in_channels = 32, middle_channels = 32 + 16, out_channels = 32\<rparr>"

definition decode0 :: "layer list" where
  "decode0 = [ConvTranspose3d 32 32 2 2, Conv3d 32 16 3 1 1, ReLU, Conv3d 16 16 3 1 1, ReLU]"

definition conv_last :: layer where
  "conv_last = Conv3d 16 6 1 1 0"

definition forward :: "shape \<Rightarrow> error + shape" where
  "forward input =
     (case sequential layer1 input of Inl e \<Rightarrow> Inl e | Inr e1 \<Rightarrow>
     (case sequential layer2 e1 of Inl e \<Rightarrow> Inl e | Inr e2 \<Rightarrow>
     (case sequential layer3 e2 of Inl e \<Rightarrow> Inl e | Inr e3 \<Rightarrow>
     (case sequential layer4 e3 of Inl e \<Rightarrow> Inl e | Inr e4 \<Rightarrow>
     (case sequential layer5 e4 of Inl e \<Rightarrow> Inl e | Inr f \<Rightarrow>
     (case Decoder_forward decode4 f e4 of Inl e \<Rightarrow> Inl e | Inr d4 \<Rightarrow>
     (case Decoder_forward decode3 d4 e3 of Inl e \<Rightarrow> Inl e | Inr d3 \<Rightarrow>
     (case Decoder_forward decode2 d3 e2 of Inl e \<Rightarrow> Inl e | Inr d2 \<Rightarrow>
     (case Decoder_forward decode1 d2 e1 of Inl e \<Rightarrow> Inl e | Inr d1 \<Rightarrow>
     (case sequential decode0 d1 of Inl e \<Rightarrow> Inl e | Inr d0 \<Rightarrow>
        apply_layer conv_last d0))))))))))"

text \<open>
  The shapes at the four skip connections of \<open>forward\<close>: the tensors that the decoders
  concatenate, deepest first.
\<close>

definition skip_concats :: "shape \<Rightarrow> error + shape list" where
  "skip_concats input =
     (case sequential layer1 input of Inl e \<Rightarrow> Inl e | Inr e1 \<Rightarrow>
     (case sequential layer2 e1 of Inl e \<Rightarrow> Inl e | Inr e2 \<Rightarrow>
     (case sequential layer3 e2 of Inl e \<Rightarrow> Inl e | Inr e3 \<Rightarrow>
     (case sequential layer4 e3 of Inl e \<Rightarrow> Inl e | Inr e4 \<Rightarrow>
     (case sequential layer5 e4 of Inl e \<Rightarrow> Inl e | Inr f \<Rightarrow>
     (case Decoder_concat decode4 f e4 of Inl e \<Rightarrow> Inl e | Inr c4 \<Rightarrow>
     (case sequential (Decoder_conv_relu decode4) c4 of Inl e \<Rightarrow> Inl e | Inr d4 \<Rightarrow>
     (case Decoder_concat decode3 d4 e3 of Inl e \<Rightarrow> Inl e | Inr c3 \<Rightarrow>
     (case sequential (Decoder_conv_relu decode3) c3 of Inl e \<Rightarrow> Inl e | Inr d3 \<Rightarrow>
     (case Decoder_concat decode2 d3 e2 of Inl e \<Rightarrow> Inl e | Inr c2 \<Rightarrow>
     (case sequential (Decoder_conv_relu decode2) c2 of Inl e \<Rightarrow> Inl e | Inr d2 \<Rightarrow>
     (case Decoder_concat decode1 d2 e1 of Inl e \<Rightarrow> Inl e | Inr c1 \<Rightarrow>
        Inr [c4, c3, c2, c1]))))))))))))"

section \<open>The four files as scripts\<close>

text \<open>
  The statements at the top level of a module, in source order. Running the file executes
  them one after another: an import, a class or function definition and the assignment
  of a constant only bind names; a call statement, or an assignment whose right-hand side
  is a call, calls the named function.
\<close>

datatype stmt =
    Import string
  | AssignConst string
  | ClassDef string
  | FunctionDef string
  | DocString
  | CallStmt string
  | AssignCall string string

fun toplevel_calls :: "stmt list \<Rightarrow> string list" where
  "toplevel_calls [] = []"
| "toplevel_calls (CallStmt f # rest) = f # toplevel_calls rest"
| "toplevel_calls (AssignCall x f # rest) = f # toplevel_calls rest"
| "toplevel_calls (s # rest) = toplevel_calls rest"

text \<open>\<open>recognition/45471861_StyleGAN/train.py\<close>\<close>

definition stylegan_train_py :: "stmt list" where
  "stylegan_train_py =
     [DocString, Import ''os.path'', Import ''tensorflow'', Import ''time'', Import ''models'',
      Import ''matplotlib.pyplot'', Import ''neptune.new'', Import ''datetime'',
      Import ''tensorflow.keras'', Import ''tensorflow.keras.utils'',
      AssignConst ''__author__'', AssignConst ''__email__'',
      ClassDef ''RandomWeightedAverage'', ClassDef ''Trainer'']"

text \<open>\<open>recognition/45678044/vqvae.py\<close>\<close>

definition vqvae_py :: "stmt list" where
  "vqvae_py =
     [Import ''models'', Import ''helper'', Import ''torch'', Import ''torch.nn'',
      Import ''torchvision'', Import ''torchvision'', Import ''numpy'',
      Import ''matplotlib.pyplot'',
      AssignCall ''device'' ''torch.device'',
      AssignCall ''train_data'' ''preload_imgs'',
      AssignCall ''valid_data'' ''preload_imgs'',
      AssignCall ''test_data'' ''preload_imgs'',
      AssignConst ''EPOCH_SIZE'', AssignConst ''BATCH_SIZE'', AssignConst ''LR'',
      AssignConst ''K'', AssignConst ''D'',
      AssignCall ''train_loader'' ''torch.utils.data.DataLoader'',
      AssignCall ''valid_loader'' ''torch.utils.data.DataLoader'',
      AssignCall ''test_loader'' ''torch.utils.data.DataLoader'',
      AssignCall ''vqvae'' ''VQVAE'',
      AssignCall ''optim'' ''torch.optim.Adam'',
      AssignCall ''train_status'' ''train'']"

text \<open>\<open>recognition/45979189unet3d/model.py\<close>\<close>

definition unet3d_model_py :: "stmt list" where
  "unet3d_model_py =
     [Import ''os'', Import ''numpy'', Import ''copy'', Import ''matplotlib.pyplot'',
      Import ''torch'', Import ''torch.nn'', Import ''torch.nn.functional'',
      Import ''torchvision'', Import ''torch.utils.data'', Import ''torch.utils.data'',
      DocString, ClassDef ''Decoder'', DocString, ClassDef ''UNet3D'']"

text \<open>\<open>recognition/ISIC-ImprovedUnet-44961374/model.py\<close>\<close>

definition improved_unet_model_py :: "stmt list" where
  "improved_unet_model_py =
     [DocString, Import ''tensorflow'', Import ''tensorflow.keras.layers'',
      Import ''tensorflow_addons.layers'', Import ''tensorflow.keras.layers'',
      AssignConst ''P_DROP'', AssignConst ''NUM_STRIDES'', AssignConst ''LEAKY_RELU_ALPHA'',
      AssignConst ''IMAGE_ROWS'', AssignConst ''IMAGE_COLS'', AssignConst ''IMAGE_CHANNELS'',
      AssignConst ''KERNEL_SIZE'',
      FunctionDef ''create_conv2d'', FunctionDef ''context_module'',
      FunctionDef ''upsampling_module'', FunctionDef ''localization_module'',
      FunctionDef ''create_model'',
      CallStmt ''create_model'']"

text \<open>
  The calls that the body of \<open>create_model\<close> makes, in order (lines 92 to 96); the
  function ends there and returns nothing.
\<close>

definition create_model_body :: "string list" where
  "create_model_body = [''Input'', ''create_conv2d'', ''context_module'']"

text \<open>
  The functions that stand for the three activities of a training script: the model
  constructors, the dataset loaders and the training loops that the four files name.
\<close>

definition model_constructors :: "string list" where
  "model_constructors = [''VQVAE'', ''UNet3D'', ''create_model'', ''Trainer'', ''Generator'',
     ''Discriminator'']"

definition dataset_loaders :: "string list" where
  "dataset_loaders = [''preload_imgs'', ''image_dataset_from_directory'', ''load_data'',
     ''torch.utils.data.DataLoader'']"

definition training_loops :: "string list" where
  "training_loops = [''train'', ''Trainer.train'']"

definition calls_any :: "string list \<Rightarrow> stmt list \<Rightarrow> bool" where
  "calls_any names script = list_ex (\<lambda>f. List.member names f) (toplevel_calls script)"

definition standalone_training_script :: "stmt list \<Rightarrow> bool" where
  "standalone_training_script script =
     (calls_any model_constructors script \<and> calls_any dataset_loaders script \<and>
      calls_any training_loops script)"

section \<open>Properties of Trainer.train\<close>

subsection \<open>The first epoch\<close>

lemma getattr_image_reso: "getattr T ''image_reso'' = Inl AttributeError"
  by (simp add: getattr_def instance_dict_def)

lemma getattr_image_res: "getattr T ''image_res'' = Inr (PyInt (image_res T))"
  by (simp add: getattr_def instance_dict_def)

lemma show_images_raises:
  "show_images T epoch save tr = Inl (AttributeError, tr @ [CallShowImages epoch save, GeneratorPredict, Figure])"
  by (simp add: show_images_def getattr_image_reso getattr_image_res)


lemma upto_from_zero: "1 \<le> n \<Longrightarrow> [0..n - 1] = 0 # [1..n - 1]"
  by (simp add: upto.simps)

lemma epoch_zero_raises: "\<exists>e s'. epoch_step T 0 s = Inl (e, s')"
  by (auto simp: epoch_step_def show_images_raises split: sum.splits prod.splits)

lemma train_first_epoch: "1 \<le> epochs T \<Longrightarrow> train T = epoch_step T 0 init_state"
  using epoch_zero_raises [of T init_state]
  by (auto simp: train_def upto_from_zero)




subsection \<open>Projections of a trace\<close>

lemma updates_append: "updates (xs @ ys) = updates xs @ updates ys"
  by (induction xs rule: updates.induct) auto

lemma batches_drawn_append: "batches_drawn (xs @ ys) = batches_drawn xs @ batches_drawn ys"
  by (induction xs rule: batches_drawn.induct) auto

lemma logged_d_append: "logged_d (xs @ ys) = logged_d xs @ logged_d ys"
  by (induction xs rule: logged_d.induct) auto

lemma show_calls_append: "show_calls (xs @ ys) = show_calls xs @ show_calls ys"
  by (induction xs rule: show_calls.induct) auto

lemma saved_figures_append: "saved_figures (xs @ ys) = saved_figures xs @ saved_figures ys"
  by (induction xs rule: saved_figures.induct) auto

lemma saved_models_append: "saved_models (xs @ ys) = saved_models xs @ saved_models ys"
  by (induction xs rule: saved_models.induct) auto

lemmas trace_append = updates_append batches_drawn_append logged_d_append show_calls_append
  saved_figures_append saved_models_append

lemma py_mean_snoc: "py_mean (xs @ [x]) = Inr (sum_list (xs @ [x]) / real (length (xs @ [x])))"
  by (simp add: py_mean_def)

subsection \<open>One iteration\<close>


lemma batch_step_nonzero:
  "n_critics T \<noteq> 0 \<Longrightarrow>
   batch_step T f b s =
     (if Suc (iter s) mod 100 = 0 then
        Inl (AttributeError,
             (after_d T f b s)\<lparr>trace := trace (after_d T f b s) @
                [CallShowImages 0 False, GeneratorPredict, Figure]\<rparr>)
      else Inr (after_d T f b s))"
  by (simp add: batch_step_def after_d_def Let_def py_mean_def show_images_raises)

subsection \<open>Alternation of the updates\<close>

lemma length_upto_epochs: "length [0..n - 1] = nat n"
  by simp

lemma train_example:
  "train example_trainer =
     Inl (AttributeError,
          \<lparr>iter = 3, d_training_loss_buff = [2], last_d_training_loss = 1 / 2,
           last_g_training_loss = 0,
           trace = [TrainD [[-1]] 0, TrainD [[1]] 0, TrainG 0, TrainD [[0]] 0,
                    CallShowImages 0 True, GeneratorPredict, Figure]\<rparr>)"
  by (simp add: train_first_epoch example_trainer_def default_trainer_def epoch_step_def
      fade_in_ratio_def batch_step_nonzero after_d_def init_state_def normalize_def
      show_images_raises)


subsection \<open>Aggregation of the discriminator loss\<close>

lemma g_due_iff:
  assumes "n \<noteq> 0"
  shows "(int i + 1) mod n = 0 \<longleftrightarrow> Suc i mod nat \<bar>n\<bar> = 0"
proof -
  have "(int i + 1) mod n = 0 \<longleftrightarrow> n dvd int (Suc i)"
    by (simp add: mod_eq_0_iff_dvd add.commute)
  also have "\<dots> \<longleftrightarrow> \<bar>n\<bar> dvd int (Suc i)"
    by simp
  also have "\<dots> \<longleftrightarrow> int (nat \<bar>n\<bar>) dvd int (Suc i)"
    by simp
  also have "\<dots> \<longleftrightarrow> nat \<bar>n\<bar> dvd Suc i"
    by (rule int_dvd_int_iff)
  also have "\<dots> \<longleftrightarrow> Suc i mod nat \<bar>n\<bar> = 0"
    by (simp add: mod_eq_0_iff_dvd)
  finally show ?thesis .
qed

lemma block_end:
  assumes m: "0 < m" and z: "Suc i mod m = 0"
  shows "Suc i div m = Suc (i div m)"
    and "i - i mod m = i div m * m"
    and "Suc i = Suc (i div m) * m"
proof -
  from z have im: "Suc (i mod m) = m"
    by (simp add: mod_Suc split: if_splits)
  show d: "Suc i div m = Suc (i div m)"
    using z by (simp add: div_Suc)
  show e: "i - i mod m = i div m * m"
    by (simp add: minus_mod_eq_div_mult)
  have "i = i div m * m + i mod m" by simp
  then have "Suc i = i div m * m + Suc (i mod m)" by simp
  with im show "Suc i = Suc (i div m) * m" by simp
qed

lemma block_mid:
  assumes m: "0 < m" and z: "Suc i mod m \<noteq> 0"
  shows "Suc i - Suc i mod m = i - i mod m"
    and "Suc i div m = i div m"
proof -
  from z have s: "Suc i mod m = Suc (i mod m)" by (simp add: mod_Suc split: if_splits)
  have "i mod m \<le> i" by simp
  with s show "Suc i - Suc i mod m = i - i mod m" by simp
  from z show "Suc i div m = i div m" by (simp add: div_Suc)
qed

lemma after_d_g_branch:
  assumes "(int (iter s) + 1) mod n_critics T = 0"
  shows "iter (after_d T f b s) = Suc (iter s)"
    and "d_training_loss_buff (after_d T f b s) = []"
    and "last_d_training_loss (after_d T f b s) =
           sum_list (d_training_loss_buff s @ [train_d_loss T (iter s)]) /
           real (length (d_training_loss_buff s @ [train_d_loss T (iter s)]))"
    and "logged_d (trace (after_d T f b s)) =
           logged_d (trace s) @
           (if neptune T then
              [sum_list (d_training_loss_buff s @ [train_d_loss T (iter s)]) /
               real (length (d_training_loss_buff s @ [train_d_loss T (iter s)]))]
            else [])"
  using assms by (simp_all add: after_d_def trace_append)

lemma after_d_no_g_branch:
  assumes "(int (iter s) + 1) mod n_critics T \<noteq> 0"
  shows "iter (after_d T f b s) = Suc (iter s)"
    and "d_training_loss_buff (after_d T f b s) =
           d_training_loss_buff s @ [train_d_loss T (iter s)]"
    and "last_d_training_loss (after_d T f b s) = last_d_training_loss s"
    and "logged_d (trace (after_d T f b s)) = logged_d (trace s)"
  using assms by (simp_all add: after_d_def trace_append)

lemma after_d_inv:
  assumes n: "n_critics T \<noteq> 0" and inv: "loss_log_inv T s"
  shows "loss_log_inv T (after_d T f b s)"
proof -
  let ?m = "nat \<bar>n_critics T\<bar>"
  let ?i = "iter s"
  let ?d = "train_d_loss T"
  from n have m: "0 < ?m" by simp
  from inv have buff: "d_training_loss_buff s = map ?d [?i - ?i mod ?m..<?i]"
    and logs: "logged_d (trace s) = (if neptune T then map (block_mean T ?m) [0..<?i div ?m] else [])"
    and last: "last_d_training_loss s = (if ?i div ?m = 0 then 0 else block_mean T ?m (?i div ?m - 1))"
    by (simp_all add: loss_log_inv_def Let_def)
  have low: "?i - ?i mod ?m \<le> ?i" by simp
  have snoc: "d_training_loss_buff s @ [?d ?i] = map ?d [?i - ?i mod ?m..<Suc ?i]"
    using buff low by simp
  show ?thesis
  proof (cases "(int ?i + 1) mod n_critics T = 0")
    case True
    then have z: "Suc ?i mod ?m = 0" using g_due_iff [OF n] by simp
    note e = block_end [OF m z]
    have block: "d_training_loss_buff s @ [?d ?i] = map ?d [?i div ?m * ?m..<(?i div ?m + 1) * ?m]"
      using snoc e(2) e(3) by simp
    have len: "length (d_training_loss_buff s @ [?d ?i]) = ?m"
      unfolding block by simp
    have avg: "sum_list (d_training_loss_buff s @ [?d ?i]) /
               real (length (d_training_loss_buff s @ [?d ?i])) = block_mean T ?m (?i div ?m)"
      unfolding len unfolding block by (simp add: block_mean_def)
    note g = after_d_g_branch [OF True, of f b]
    have "d_training_loss_buff (after_d T f b s) =
            map ?d [Suc ?i - Suc ?i mod ?m..<Suc ?i]"
      using g(2) z by simp
    moreover have "logged_d (trace (after_d T f b s)) =
            (if neptune T then map (block_mean T ?m) [0..<Suc ?i div ?m] else [])"
      unfolding g(4) avg using logs e(1) by simp
    moreover have "last_d_training_loss (after_d T f b s) =
            (if Suc ?i div ?m = 0 then 0 else block_mean T ?m (Suc ?i div ?m - 1))"
      unfolding g(3) avg using e(1) by simp
    ultimately show ?thesis
      using g(1) by (simp add: loss_log_inv_def Let_def)
  next
    case False
    then have z: "Suc ?i mod ?m \<noteq> 0" using g_due_iff [OF n] by simp
    note e = block_mid [OF m z]
    note g = after_d_no_g_branch [OF False, of f b]
    have "d_training_loss_buff (after_d T f b s) =
            map ?d [Suc ?i - Suc ?i mod ?m..<Suc ?i]"
      unfolding g(2) e(1) using snoc by simp
    moreover have "logged_d (trace (after_d T f b s)) =
            (if neptune T then map (block_mean T ?m) [0..<Suc ?i div ?m] else [])"
      unfolding g(4) e(2) using logs by simp
    moreover have "last_d_training_loss (after_d T f b s) =
            (if Suc ?i div ?m = 0 then 0 else block_mean T ?m (Suc ?i div ?m - 1))"
      unfolding g(3) e(2) using last by simp
    ultimately show ?thesis
      using g(1) by (simp add: loss_log_inv_def Let_def)
  qed
qed

lemma inv_show_events:
  "loss_log_inv T (s\<lparr>trace := trace s @ [CallShowImages epoch save, GeneratorPredict, Figure]\<rparr>) =
   loss_log_inv T s"
  by (simp add: loss_log_inv_def trace_append)

lemma batch_step_inv:
  assumes "n_critics T \<noteq> 0" and "loss_log_inv T s"
  shows "loss_log_inv T (final (batch_step T f b s))"
  using after_d_inv [OF assms, of f b]
  by (simp add: batch_step_nonzero [OF assms(1)] inv_show_events)

lemma epoch_batches_inv:
  assumes "n_critics T \<noteq> 0"
  shows "loss_log_inv T s \<Longrightarrow> loss_log_inv T (final (epoch_batches T f bs s))"
proof (induction bs arbitrary: s)
  case Nil
  then show ?case by simp
next
  case (Cons b bs)
  note step = batch_step_inv [OF assms Cons.prems, of f b]
  show ?case
  proof (cases "batch_step T f b s")
    case (Inl x)
    with step show ?thesis by (cases x) simp
  next
    case (Inr s')
    with step Cons.IH [of s'] show ?thesis by simp
  qed
qed

lemma epoch_step_inv:
  assumes "n_critics T \<noteq> 0" and "loss_log_inv T s"
  shows "loss_log_inv T (final (epoch_step T epoch s))"
proof (cases "fade_in_ratio T epoch")
  case (Inl e)
  with assms(2) show ?thesis by (simp add: epoch_step_def)
next
  case (Inr f)
  note inner = epoch_batches_inv [OF assms, of f "dataset T"]
  show ?thesis
  proof (cases "epoch_batches T f (dataset T) s")
    case (Inl x)
    with inner Inr show ?thesis by (cases x) (simp add: epoch_step_def)
  next
    case r: (Inr s1)
    with inner Inr show ?thesis
      by (simp add: epoch_step_def show_images_raises inv_show_events)
  qed
qed

lemma epochs_loop_inv:
  assumes "n_critics T \<noteq> 0"
  shows "loss_log_inv T s \<Longrightarrow> loss_log_inv T (final (epochs_loop T eps s))"
proof (induction eps arbitrary: s)
  case Nil
  then show ?case by simp
next
  case (Cons ep eps)
  note step = epoch_step_inv [OF assms Cons.prems, of ep]
  show ?case
  proof (cases "epoch_step T ep s")
    case (Inl x)
    with step show ?thesis by (cases x) simp
  next
    case (Inr s')
    with step Cons.IH [of s'] show ?thesis by simp
  qed
qed

lemma train_inv:
  assumes "n_critics T \<noteq> 0"
  shows "loss_log_inv T (final (train T))"
proof -
  have "loss_log_inv T init_state"
    by (simp add: loss_log_inv_def init_state_def)
  from epochs_loop_inv [OF assms this, of "[0..epochs T - 1]"]
  show ?thesis
    by (cases "epochs_loop T [0..epochs T - 1] init_state")
       (auto simp: train_def Let_def loss_log_inv_def trace_append)
qed

text \<open>
  C5. The discriminator losses are aggregated for logging. In an iteration that trains the
  generator, the value logged to the tracker and kept as \<open>last_d_training_loss\<close> is the
  sum of the buffer (with the loss of this iteration appended) divided by its length, and
  the buffer is empty afterwards; in any other iteration the loss is appended to the buffer
  and nothing is logged. Over a whole run the buffer therefore holds the losses since the
  last generator update, and the logged values are the means of the successive groups of
  \<open>|n_critics|\<close> losses.
\<close>

theorem d_loss_average:
  assumes n: "n_critics T \<noteq> 0"
  shows "(if (int (iter s) + 1) mod n_critics T = 0 then
            last_d_training_loss (final (batch_step T f b s)) =
              sum_list (d_training_loss_buff s @ [train_d_loss T (iter s)]) /
              real (length (d_training_loss_buff s @ [train_d_loss T (iter s)])) \<and>
            logged_d (trace (final (batch_step T f b s))) =
              logged_d (trace s) @
              (if neptune T then
                 [sum_list (d_training_loss_buff s @ [train_d_loss T (iter s)]) /
                  real (length (d_training_loss_buff s @ [train_d_loss T (iter s)]))]
               else []) \<and>
            d_training_loss_buff (final (batch_step T f b s)) = []
          else
            last_d_training_loss (final (batch_step T f b s)) = last_d_training_loss s \<and>
            logged_d (trace (final (batch_step T f b s))) = logged_d (trace s) \<and>
            d_training_loss_buff (final (batch_step T f b s)) =
              d_training_loss_buff s @ [train_d_loss T (iter s)]) \<and>
         d_training_loss_buff (final (train T)) =
           map (train_d_loss T)
             [iter (final (train T)) - iter (final (train T)) mod nat \<bar>n_critics T\<bar>..<
              iter (final (train T))] \<and>
         logged_d (trace (final (train T))) =
           (if neptune T
            then map (block_mean T (nat \<bar>n_critics T\<bar>))
                   [0..<iter (final (train T)) div nat \<bar>n_critics T\<bar>]
            else []) \<and>
         last_d_training_loss (final (train T)) =
           (if iter (final (train T)) div nat \<bar>n_critics T\<bar> = 0 then 0
            else block_mean T (nat \<bar>n_critics T\<bar>)
                   (iter (final (train T)) div nat \<bar>n_critics T\<bar> - 1))"
proof -
  have step: "(if (int (iter s) + 1) mod n_critics T = 0 then
            last_d_training_loss (final (batch_step T f b s)) =
              sum_list (d_training_loss_buff s @ [train_d_loss T (iter s)]) /
              real (length (d_training_loss_buff s @ [train_d_loss T (iter s)])) \<and>
            logged_d (trace (final (batch_step T f b s))) =
              logged_d (trace s) @
              (if neptune T then
                 [sum_list (d_training_loss_buff s @ [train_d_loss T (iter s)]) /
                  real (length (d_training_loss_buff s @ [train_d_loss T (iter s)]))]
               else []) \<and>
            d_training_loss_buff (final (batch_step T f b s)) = []
          else
            last_d_training_loss (final (batch_step T f b s)) = last_d_training_loss s \<and>
            logged_d (trace (final (batch_step T f b s))) = logged_d (trace s) \<and>
            d_training_loss_buff (final (batch_step T f b s)) =
              d_training_loss_buff s @ [train_d_loss T (iter s)])"
    using n by (simp add: batch_step_nonzero after_d_def trace_append)
  note inv = train_inv [OF n]
  from inv have buff: "d_training_loss_buff (final (train T)) =
           map (train_d_loss T)
             [iter (final (train T)) - iter (final (train T)) mod nat \<bar>n_critics T\<bar>..<
              iter (final (train T))]"
    by (simp add: loss_log_inv_def Let_def)
  from inv have logs: "logged_d (trace (final (train T))) =
           (if neptune T
            then map (block_mean T (nat \<bar>n_critics T\<bar>))
                   [0..<iter (final (train T)) div nat \<bar>n_critics T\<bar>]
            else [])"
    by (simp add: loss_log_inv_def Let_def)
  from inv have last: "last_d_training_loss (final (train T)) =
           (if iter (final (train T)) div nat \<bar>n_critics T\<bar> = 0 then 0
            else block_mean T (nat \<bar>n_critics T\<bar>)
                   (iter (final (train T)) div nat \<bar>n_critics T\<bar> - 1))"
    by (simp add: loss_log_inv_def Let_def)
  from step buff logs last show ?thesis by blast
qed

lemma train_logging_example:
  "train (example_trainer\<lparr>neptune := True\<rparr>) =
     Inl (AttributeError,
          \<lparr>iter = 3, d_training_loss_buff = [2], last_d_training_loss = 1 / 2,
           last_g_training_loss = 0,
           trace = [TrainD [[-1]] 0, TrainD [[1]] 0, TrainG 0, LogG 0, LogD (1 / 2),
                    TrainD [[0]] 0, CallShowImages 0 True, GeneratorPredict, Figure]\<rparr>)"
  by (simp add: train_first_epoch example_trainer_def default_trainer_def epoch_step_def
      fade_in_ratio_def batch_step_nonzero after_d_def init_state_def normalize_def
      show_images_raises)

theorem d_loss_average_witness:
  "n_critics (example_trainer\<lparr>neptune := True\<rparr>) \<noteq> 0 \<and>
   last_d_training_loss
     (final (batch_step (example_trainer\<lparr>neptune := True\<rparr>) 0 [[0]]
        (init_state\<lparr>iter := 1, d_training_loss_buff := [4]\<rparr>))) = 5 / 2 \<and>
   d_training_loss_buff
     (final (batch_step (example_trainer\<lparr>neptune := True\<rparr>) 0 [[0]]
        (init_state\<lparr>iter := 1, d_training_loss_buff := [4]\<rparr>))) = [] \<and>
   logged_d (trace (final (train (example_trainer\<lparr>neptune := True\<rparr>)))) =
     [block_mean (example_trainer\<lparr>neptune := True\<rparr>) 2 0] \<and>
   block_mean (example_trainer\<lparr>neptune := True\<rparr>) 2 0 = 1 / 2"
  using d_loss_average [of "example_trainer\<lparr>neptune := True\<rparr>"
      "init_state\<lparr>iter := 1, d_training_loss_buff := [4]\<rparr>" 0 "[[0]]"]
  by (simp add: train_logging_example)
     (simp add: example_trainer_def default_trainer_def init_state_def block_mean_def
        upt_conv_Cons)

subsection \<open>The attribute read in \<open>_show_images\<close>\<close>








text \<open>
  C4. \<open>train\<close> is written to save a figure of the validation images in every epoch whose
  index is divisible by \<open>checkpoint\<close> and to save both models after the last epoch. On a
  trainer with two epochs, \<open>checkpoint = 1\<close> and three batches the run ends in the first
  epoch with \<open>AttributeError\<close>: no figure and no model has been saved.
\<close>

theorem train_checkpoint_failing_input:
  "epochs example_trainer = 2 \<and> checkpoint example_trainer = 1 \<and>
   raised (train example_trainer) = Some AttributeError \<and>
   saved_figures (trace (final (train example_trainer))) = [] \<and>
   saved_models (trace (final (train example_trainer))) = []"
  by (simp add: train_example) (simp add: example_trainer_def default_trainer_def)

subsection \<open>The tracking credential\<close>

lemma opened_files_append: "opened_files (xs @ ys) = opened_files xs @ opened_files ys"
  by (induction xs rule: opened_files.induct) auto

text \<open>
  C6. \<open>__init__\<close> opens the credential file \<open>neptune_credential.txt\<close> if and only if
  \<open>use_neptune\<close> is true, and then the token it passes to the tracker is the first line of
  that file. When \<open>use_neptune\<close> is false the constructor opens no file and returns a
  trainer whose \<open>run\<close> is \<open>None\<close>.
\<close>

theorem init_reads_credential:
  "(opened_files (init_events (Trainer_init env a)) =
      (if arg_use_neptune a then [''neptune_credential.txt''] else [])) \<and>
   (arg_use_neptune a \<longrightarrow>
      (case files env ''neptune_credential.txt'' of
         None \<Rightarrow> Trainer_init env a =
                  Inl (FileNotFoundError,
                       init_events (Trainer_init env a))
       | Some ls \<Rightarrow>
           (\<exists>T evs r. Trainer_init env a = Inr (T, evs) \<and> run T = Some r \<and>
              api_token r = readline ls))) \<and>
   (\<not> arg_use_neptune a \<longrightarrow>
      (\<exists>T evs. Trainer_init env a = Inr (T, evs) \<and> run T = None \<and> \<not> neptune T))"
  by (simp add: Trainer_init_def Let_def opened_files_append split: option.splits)

theorem init_reads_credential_witness:
  "arg_use_neptune (default_args\<lparr>arg_use_neptune := True\<rparr>) \<and>
   \<not> arg_use_neptune default_args \<and>
   opened_files (init_events (Trainer_init empty_environment default_args)) = [] \<and>
   opened_files (init_events
     (Trainer_init (empty_environment\<lparr>files := (\<lambda>p. Some [''token'', ''more''])\<rparr>)
        (default_args\<lparr>arg_use_neptune := True\<rparr>))) = [''neptune_credential.txt''] \<and>
   (\<exists>T evs r. Trainer_init (empty_environment\<lparr>files := (\<lambda>p. Some [''token'', ''more''])\<rparr>)
        (default_args\<lparr>arg_use_neptune := True\<rparr>) = Inr (T, evs) \<and> run T = Some r \<and>
        api_token r = ''token'') \<and>
   (\<exists>T evs. Trainer_init empty_environment default_args = Inr (T, evs) \<and> run T = None)"
proof -
  have off: "\<not> arg_use_neptune default_args"
    by (simp add: default_args_def)
  have on: "arg_use_neptune (default_args\<lparr>arg_use_neptune := True\<rparr>)"
    by simp
  have cred: "files (empty_environment\<lparr>files := (\<lambda>p. Some [''token'', ''more''])\<rparr>)
                ''neptune_credential.txt'' = Some [''token'', ''more'']"
    by simp
  have line: "readline [''token'', ''more''] = ''token''"
    by (simp add: readline_def)
  from init_reads_credential [of empty_environment default_args] off
  have a: "opened_files (init_events (Trainer_init empty_environment default_args)) = []"
    and b: "\<exists>T evs. Trainer_init empty_environment default_args = Inr (T, evs) \<and> run T = None"
    by auto
  from init_reads_credential
         [of "empty_environment\<lparr>files := (\<lambda>p. Some [''token'', ''more''])\<rparr>"
             "default_args\<lparr>arg_use_neptune := True\<rparr>"] on
  have c: "opened_files (init_events
       (Trainer_init (empty_environment\<lparr>files := (\<lambda>p. Some [''token'', ''more''])\<rparr>)
          (default_args\<lparr>arg_use_neptune := True\<rparr>))) = [''neptune_credential.txt'']"
    and d: "\<exists>T evs r. Trainer_init (empty_environment\<lparr>files := (\<lambda>p. Some [''token'', ''more''])\<rparr>)
        (default_args\<lparr>arg_use_neptune := True\<rparr>) = Inr (T, evs) \<and> run T = Some r \<and>
        api_token r = ''token''"
    by (auto simp: cred line)
  from off on a b c d show ?thesis by blast
qed

section \<open>Properties of UNet3D.forward\<close>

lemma conv_same: "0 < x \<Longrightarrow> conv_out 3 (Suc 0) (Suc 0) x = Inr x"
  by (simp add: conv_out_def)

lemma conv_pointwise: "0 < x \<Longrightarrow> conv_out (Suc 0) (Suc 0) 0 x = Inr x"
  by (simp add: conv_out_def)

lemma pool_half: "0 < x \<Longrightarrow> even x \<Longrightarrow> pool_out 2 x = Inr (x div 2)"
  by (auto simp: pool_out_def elim!: evenE)

lemma up_double: "conv_transpose_out 2 2 x = Inr (2 * x)"
  by (simp add: conv_transpose_out_def)

lemma encoder_block_shape:
  assumes "0 < d" "0 < h" "0 < w" "even d" "even h" "even w"
  shows "sequential (encoder_block cin cout) (n, cin, d, h, w) =
           Inr (n, cout, d div 2, h div 2, w div 2)"
  using assms by (simp add: encoder_block_def on_axes_def conv_same pool_half)

lemma decoder_concat_shape:
  "Decoder_concat dec (n, in_channels dec, d, h, w) (n, c, 2 * d, 2 * h, 2 * w) =
     Inr (n, out_channels dec + c, 2 * d, 2 * h, 2 * w)"
  by (simp add: Decoder_concat_def Decoder_up_def on_axes_def up_double)

lemma decoder_conv_relu_shape:
  assumes "0 < d" "0 < h" "0 < w"
  shows "sequential (Decoder_conv_relu dec) (n, middle_channels dec, d, h, w) =
           Inr (n, out_channels dec, d, h, w)"
  using assms by (simp add: Decoder_conv_relu_def on_axes_def conv_same)

lemma decoder_forward_dims:
  assumes "0 < d" "0 < h" "0 < w" "middle_channels dec = out_channels dec + c"
  shows "Decoder_forward dec (n, in_channels dec, d, h, w) (n, c, 2 * d, 2 * h, 2 * w) =
           Inr (n, out_channels dec, 2 * d, 2 * h, 2 * w)"
  using assms decoder_conv_relu_shape [of "2 * d" "2 * h" "2 * w" dec n]
  by (simp add: Decoder_forward_def decoder_concat_shape)

lemma encoder_shapes:
  assumes "0 < d" "0 < h" "0 < w"
  shows "sequential layer1 (n, 1, 32 * d, 32 * h, 32 * w) = Inr (n, 16, 16 * d, 16 * h, 16 * w)"
    and "sequential layer2 (n, 16, 16 * d, 16 * h, 16 * w) = Inr (n, 32, 8 * d, 8 * h, 8 * w)"
    and "sequential layer3 (n, 32, 8 * d, 8 * h, 8 * w) = Inr (n, 64, 4 * d, 4 * h, 4 * w)"
    and "sequential layer4 (n, 64, 4 * d, 4 * h, 4 * w) = Inr (n, 128, 2 * d, 2 * h, 2 * w)"
    and "sequential layer5 (n, 128, 2 * d, 2 * h, 2 * w) = Inr (n, 256, d, h, w)"
  using assms
  by (simp_all add: layer1_def layer2_def layer3_def layer4_def layer5_def encoder_block_shape)

lemma decoder_shapes:
  assumes "0 < d" "0 < h" "0 < w"
  shows "Decoder_forward decode4 (n, 256, d, h, w) (n, 128, 2 * d, 2 * h, 2 * w) =
           Inr (n, 128, 2 * d, 2 * h, 2 * w)"
    and "Decoder_forward decode3 (n, 128, 2 * d, 2 * h, 2 * w) (n, 64, 4 * d, 4 * h, 4 * w) =
           Inr (n, 64, 4 * d, 4 * h, 4 * w)"
    and "Decoder_forward decode2 (n, 64, 4 * d, 4 * h, 4 * w) (n, 32, 8 * d, 8 * h, 8 * w) =
           Inr (n, 32, 8 * d, 8 * h, 8 * w)"
    and "Decoder_forward decode1 (n, 32, 8 * d, 8 * h, 8 * w) (n, 16, 16 * d, 16 * h, 16 * w) =
           Inr (n, 32, 16 * d, 16 * h, 16 * w)"
proof -
  show "Decoder_forward decode4 (n, 256, d, h, w) (n, 128, 2 * d, 2 * h, 2 * w) =
           Inr (n, 128, 2 * d, 2 * h, 2 * w)"
    using decoder_forward_dims [of d h w decode4 128 n] assms by (simp add: decode4_def)
  show "Decoder_forward decode3 (n, 128, 2 * d, 2 * h, 2 * w) (n, 64, 4 * d, 4 * h, 4 * w) =
           Inr (n, 64, 4 * d, 4 * h, 4 * w)"
    using decoder_forward_dims [of "2 * d" "2 * h" "2 * w" decode3 64 n] assms
    by (simp add: decode3_def)
  show "Decoder_forward decode2 (n, 64, 4 * d, 4 * h, 4 * w) (n, 32, 8 * d, 8 * h, 8 * w) =
           Inr (n, 32, 8 * d, 8 * h, 8 * w)"
    using decoder_forward_dims [of "4 * d" "4 * h" "4 * w" decode2 32 n] assms
    by (simp add: decode2_def)
  show "Decoder_forward decode1 (n, 32, 8 * d, 8 * h, 8 * w) (n, 16, 16 * d, 16 * h, 16 * w) =
           Inr (n, 32, 16 * d, 16 * h, 16 * w)"
    using decoder_forward_dims [of "8 * d" "8 * h" "8 * w" decode1 16 n] assms
    by (simp add: decode1_def)
qed

lemma head_shape:
  assumes "0 < d" "0 < h" "0 < w"
  shows "sequential decode0 (n, 32, 16 * d, 16 * h, 16 * w) = Inr (n, 16, 32 * d, 32 * h, 32 * w)"
    and "apply_layer conv_last (n, 16, 32 * d, 32 * h, 32 * w) = Inr (n, 6, 32 * d, 32 * h, 32 * w)"
  using assms
  by (simp_all add: decode0_def conv_last_def on_axes_def up_double conv_same conv_pointwise)

lemma forward_multiple_of_32:
  assumes "0 < d" "0 < h" "0 < w"
  shows "forward (n, 1, 32 * d, 32 * h, 32 * w) = Inr (n, 6, 32 * d, 32 * h, 32 * w)"
  unfolding forward_def
  by (simp only: encoder_shapes [OF assms] decoder_shapes [OF assms] head_shape [OF assms]
      sum.case)

lemma skip_concats_multiple_of_32:
  assumes "0 < d" "0 < h" "0 < w"
  shows "skip_concats (n, 1, 32 * d, 32 * h, 32 * w) =
           Inr [(n, 256, 2 * d, 2 * h, 2 * w), (n, 128, 4 * d, 4 * h, 4 * w),
                (n, 64, 8 * d, 8 * h, 8 * w), (n, 48, 16 * d, 16 * h, 16 * w)]"
proof -
  have c4: "Decoder_concat decode4 (n, 256, d, h, w) (n, 128, 2 * d, 2 * h, 2 * w) =
              Inr (n, 256, 2 * d, 2 * h, 2 * w)"
    using decoder_concat_shape [of decode4 n d h w 128] by (simp add: decode4_def)
  have r4: "sequential (Decoder_conv_relu decode4) (n, 256, 2 * d, 2 * h, 2 * w) =
              Inr (n, 128, 2 * d, 2 * h, 2 * w)"
    using decoder_conv_relu_shape [of "2 * d" "2 * h" "2 * w" decode4 n] assms
    by (simp add: decode4_def)
  have c3: "Decoder_concat decode3 (n, 128, 2 * d, 2 * h, 2 * w) (n, 64, 4 * d, 4 * h, 4 * w) =
              Inr (n, 128, 4 * d, 4 * h, 4 * w)"
    using decoder_concat_shape [of decode3 n "2 * d" "2 * h" "2 * w" 64] by (simp add: decode3_def)
  have r3: "sequential (Decoder_conv_relu decode3) (n, 128, 4 * d, 4 * h, 4 * w) =
              Inr (n, 64, 4 * d, 4 * h, 4 * w)"
    using decoder_conv_relu_shape [of "4 * d" "4 * h" "4 * w" decode3 n] assms
    by (simp add: decode3_def)
  have c2: "Decoder_concat decode2 (n, 64, 4 * d, 4 * h, 4 * w) (n, 32, 8 * d, 8 * h, 8 * w) =
              Inr (n, 64, 8 * d, 8 * h, 8 * w)"
    using decoder_concat_shape [of decode2 n "4 * d" "4 * h" "4 * w" 32] by (simp add: decode2_def)
  have r2: "sequential (Decoder_conv_relu decode2) (n, 64, 8 * d, 8 * h, 8 * w) =
              Inr (n, 32, 8 * d, 8 * h, 8 * w)"
    using decoder_conv_relu_shape [of "8 * d" "8 * h" "8 * w" decode2 n] assms
    by (simp add: decode2_def)
  have c1: "Decoder_concat decode1 (n, 32, 8 * d, 8 * h, 8 * w) (n, 16, 16 * d, 16 * h, 16 * w) =
              Inr (n, 48, 16 * d, 16 * h, 16 * w)"
    using decoder_concat_shape [of decode1 n "8 * d" "8 * h" "8 * w" 16] by (simp add: decode1_def)
  show ?thesis
    unfolding skip_concats_def
    by (simp only: encoder_shapes [OF assms] c4 r4 c3 r3 c2 r2 c1 sum.case)
qed

lemma decoder_middle_channels:
  "map middle_channels [decode4, decode3, decode2, decode1] = [256, 128, 64, 48]"
  by (simp add: decode4_def decode3_def decode2_def decode1_def)

text \<open>
  C10, as stated, fails on a tensor with an empty axis: zero is divisible by 32, and the
  first convolution of \<open>layer1\<close> rejects a padded axis of length 2 under a kernel of
  length 3.
\<close>

theorem forward_empty_axis:
  "(32 :: nat) dvd 0 \<and> (32 :: nat) dvd 32 \<and> forward (1, 1, 0, 32, 32) = Inl RuntimeError"
  by (simp add: forward_def layer1_def encoder_block_def on_axes_def conv_out_def)

text \<open>
  C10, amended. \<open>forward\<close> maps every input of shape \<open>(N, 1, D, H, W)\<close> whose spatial
  dimensions are positive and divisible by 32 to an output of shape \<open>(N, 6, D, H, W)\<close>:
  the five poolings halve each axis and the five transposed convolutions double it
  again. At the four skip connections the concatenated tensor has as many channels as
  the decoder's \<open>middle_channels\<close>: 256, 128, 64 and 48.
\<close>

theorem forward_shape:
  assumes "0 < D" "0 < H" "0 < W" "32 dvd D" "32 dvd H" "32 dvd W"
  shows "forward (N, 1, D, H, W) = Inr (N, 6, D, H, W) \<and>
         skip_concats (N, 1, D, H, W) =
           Inr [(N, middle_channels decode4, D div 16, H div 16, W div 16),
                (N, middle_channels decode3, D div 8, H div 8, W div 8),
                (N, middle_channels decode2, D div 4, H div 4, W div 4),
                (N, middle_channels decode1, D div 2, H div 2, W div 2)] \<and>
         map middle_channels [decode4, decode3, decode2, decode1] = [256, 128, 64, 48]"
proof -
  from assms obtain d h w where dims: "D = 32 * d" "H = 32 * h" "W = 32 * w"
    by (auto elim!: dvdE)
  with assms have pos: "0 < d" "0 < h" "0 < w" by simp_all
  have "forward (N, 1, D, H, W) = Inr (N, 6, D, H, W)"
    unfolding dims by (rule forward_multiple_of_32 [OF pos])
  moreover have "skip_concats (N, 1, D, H, W) =
           Inr [(N, middle_channels decode4, D div 16, H div 16, W div 16),
                (N, middle_channels decode3, D div 8, H div 8, W div 8),
                (N, middle_channels decode2, D div 4, H div 4, W div 4),
                (N, middle_channels decode1, D div 2, H div 2, W div 2)]"
    unfolding dims skip_concats_multiple_of_32 [OF pos]
    by (simp add: decode4_def decode3_def decode2_def decode1_def)
  ultimately show ?thesis
    using decoder_middle_channels by simp
qed

theorem forward_shape_witness:
  "(0 :: nat) < 64 \<and> (0 :: nat) < 32 \<and> (0 :: nat) < 96 \<and>
   (32 :: nat) dvd 64 \<and> (32 :: nat) dvd 32 \<and> (32 :: nat) dvd 96 \<and>
   forward (2, 1, 64, 32, 96) = Inr (2, 6, 64, 32, 96) \<and>
   skip_concats (2, 1, 64, 32, 96) =
     Inr [(2, 256, 4, 2, 6), (2, 128, 8, 4, 12), (2, 64, 16, 8, 24), (2, 48, 32, 16, 48)]"
  using forward_shape [of 64 32 96 2]
  by (simp add: decode4_def decode3_def decode2_def decode1_def)

section \<open>Properties of RandomWeightedAverage.call\<close>

lemma call_pixel: "call [a] [[r]] [[f]] = Inr [[r + a * (f - r)]]"
  by (simp add: call_def tensor_op_def image_op_def broadcast2_def)

lemma call_batch_mismatch: "call [a, a, a] [[r], [r]] [[f], [f], [f]] = Inl InvalidArgumentError"
  by (simp add: call_def tensor_op_def image_op_def broadcast2_def)

lemma weighted_average_between:
  assumes "0 \<le> a" "a \<le> 1"
  shows "between r f (r + a * (f - r))"
proof (cases "r \<le> f")
  case True
  then have d: "0 \<le> f - r" by simp
  from assms(1) d have lo: "0 \<le> a * (f - r)" by (rule mult_nonneg_nonneg)
  from assms(2) d have "a * (f - r) \<le> 1 * (f - r)" by (rule mult_right_mono)
  then have hi: "a * (f - r) \<le> f - r" by (simp only: mult_1)
  from True have "min r f = r" "max r f = f" by simp_all
  then show ?thesis unfolding between_def using lo hi by linarith
next
  case False
  then have d: "f - r \<le> 0" by simp
  from assms(1) d have hi: "a * (f - r) \<le> 0" by (rule mult_nonneg_nonpos)
  from assms(2) d have "1 * (f - r) \<le> a * (f - r)" by (rule mult_right_mono_neg)
  then have lo: "f - r \<le> a * (f - r)" by (simp only: mult_1)
  from False have "min r f = f" "max r f = r" by simp_all
  then show ?thesis unfolding between_def using lo hi by linarith
qed

text \<open>
  C1. The sample for the gradient penalty is meant to be a weighted average lying between
  the real and the generated image. The weight is drawn with \<open>tf.random.normal\<close>, so it
  can be any number: with the weight 2, a real pixel 0 and a generated pixel 1 the result
  is 2, and with the weight \<open>-1\<close> it is \<open>-1\<close>; neither lies between 0 and 1.
\<close>

theorem call_failing_input:
  "may_return alpha_sampler 2 \<and> call [2] [[0]] [[1]] = Inr [[2]] \<and> \<not> between 0 1 2 \<and>
   may_return alpha_sampler (- 1) \<and> call [- 1] [[0]] [[1]] = Inr [[- 1]] \<and>
   \<not> between 0 1 (- 1)"
  by (simp add: alpha_sampler_def call_pixel between_def)

section \<open>Properties of the scripts\<close>

text \<open>
  C2, as stated, fails on \<open>recognition/45979189unet3d/model.py\<close>: executing the file
  imports modules and defines two classes. It calls nothing, so it builds no model,
  loads no dataset and runs no training loop.
\<close>

theorem unet3d_model_py_defines_only:
  "toplevel_calls unet3d_model_py = [] \<and> \<not> standalone_training_script unet3d_model_py"
  by (simp add: unet3d_model_py_def standalone_training_script_def calls_any_def)

text \<open>
  C2, amended. Of the four files only \<open>vqvae.py\<close> is a script that, when executed, loads
  datasets, builds a model and runs a training loop. Executing the StyleGAN \<open>train.py\<close>
  or the 3D U-Net \<open>model.py\<close> calls nothing; executing the Improved U-Net \<open>model.py\<close>
  calls \<open>create_model\<close> alone, whose body builds an input layer, a convolution and a
  context module, loads no dataset and runs no training loop.
\<close>

theorem scripts_at_top_level:
  "standalone_training_script vqvae_py \<and>
   toplevel_calls stylegan_train_py = [] \<and>
   toplevel_calls unet3d_model_py = [] \<and>
   toplevel_calls improved_unet_model_py = [''create_model''] \<and>
   \<not> calls_any dataset_loaders improved_unet_model_py \<and>
   \<not> calls_any training_loops improved_unet_model_py \<and>
   \<not> list_ex (List.member (dataset_loaders @ training_loops)) create_model_body"
  by (simp add: standalone_training_script_def calls_any_def vqvae_py_def stylegan_train_py_def
      unet3d_model_py_def improved_unet_model_py_def create_model_body_def
      model_constructors_def dataset_loaders_def training_loops_def)

theorem scripts_at_top_level_witness:
  "toplevel_calls vqvae_py =
     [''torch.device'', ''preload_imgs'', ''preload_imgs'', ''preload_imgs'',
      ''torch.utils.data.DataLoader'', ''torch.utils.data.DataLoader'',
      ''torch.utils.data.DataLoader'', ''VQVAE'', ''torch.optim.Adam'', ''train''] \<and>
   standalone_training_script vqvae_py \<and>
   \<not> standalone_training_script stylegan_train_py \<and>
   \<not> standalone_training_script improved_unet_model_py"
proof -
  from scripts_at_top_level
  have a: "toplevel_calls stylegan_train_py = []"
    and b: "\<not> calls_any training_loops improved_unet_model_py"
    and c: "standalone_training_script vqvae_py"
    by simp_all
  have d: "\<not> standalone_training_script stylegan_train_py"
    using a by (simp add: standalone_training_script_def calls_any_def)
  have e: "\<not> standalone_training_script improved_unet_model_py"
    using b by (simp add: standalone_training_script_def)
  have f: "toplevel_calls vqvae_py =
     [''torch.device'', ''preload_imgs'', ''preload_imgs'', ''preload_imgs'',
      ''torch.utils.data.DataLoader'', ''torch.utils.data.DataLoader'',
      ''torch.utils.data.DataLoader'', ''VQVAE'', ''torch.optim.Adam'', ''train'']"
    by (simp add: vqvae_py_def)
  from c d e f show ?thesis by simp
qed

section \<open>Propagation of exceptions\<close>





end
